theory Spec2Isabelle
  imports Main
begin

section \<open>Data model (backend/app/schemas/file.py, backend/app/models/job.py)\<close>

datatype JobStatus = PENDING | PROCESSING | COMPLETED | FAILED | CANCELLED

datatype JobType =
    MERGE_PDF | SPLIT_PDF | COMPRESS_PDF
  | CONVERT_PDF_TO_WORD | CONVERT_WORD_TO_PDF | CONVERT_IMAGE_TO_PDF | CONVERT_PDF_TO_IMAGE
  | EXTRACT_PAGES | REMOVE_PAGES | ROTATE_PAGES | ADD_WATERMARK
  | PROTECT_PDF | REMOVE_PROTECTION | OCR_PROCESSING

text \<open>The string value of each member of the \<open>JobType\<close> enumeration.\<close>

fun JobType_value :: "JobType \<Rightarrow> string" where
  "JobType_value MERGE_PDF = ''merge_pdf''"
| "JobType_value SPLIT_PDF = ''split_pdf''"
| "JobType_value COMPRESS_PDF = ''compress_pdf''"
| "JobType_value CONVERT_PDF_TO_WORD = ''convert_pdf_to_word''"
| "JobType_value CONVERT_WORD_TO_PDF = ''convert_word_to_pdf''"
| "JobType_value CONVERT_IMAGE_TO_PDF = ''convert_image_to_pdf''"
| "JobType_value CONVERT_PDF_TO_IMAGE = ''convert_pdf_to_image''"
| "JobType_value EXTRACT_PAGES = ''extract_pages''"
| "JobType_value REMOVE_PAGES = ''remove_pages''"
| "JobType_value ROTATE_PAGES = ''rotate_pages''"
| "JobType_value ADD_WATERMARK = ''add_watermark''"
| "JobType_value PROTECT_PDF = ''protect_pdf''"
| "JobType_value REMOVE_PROTECTION = ''remove_protection''"
| "JobType_value OCR_PROCESSING = ''ocr_processing''"

definition JobType_members :: "JobType list" where
  "JobType_members =
     [MERGE_PDF, SPLIT_PDF, COMPRESS_PDF, CONVERT_PDF_TO_WORD, CONVERT_WORD_TO_PDF,
      CONVERT_IMAGE_TO_PDF, CONVERT_PDF_TO_IMAGE, EXTRACT_PAGES, REMOVE_PAGES, ROTATE_PAGES,
      ADD_WATERMARK, PROTECT_PDF, REMOVE_PROTECTION, OCR_PROCESSING]"

text \<open>\<open>JobType(s)\<close>: the member whose value is \<open>s\<close>, if there is one.\<close>

definition JobType_of_value :: "string \<Rightarrow> JobType option" where
  "JobType_of_value s = find (\<lambda>t. JobType_value t = s) JobType_members"

text \<open>
  Dictionaries with opaque values (\<open>parameters\<close>, \<open>result\<close>) are association lists of
  strings; instants returned by \<open>datetime.utcnow()\<close> are natural numbers, handed to each
  operation by its caller, as are the strings returned by \<open>uuid.uuid4()\<close>.
\<close>

type_synonym dict = "(string \<times> string) list"
type_synonym datetime = nat

text \<open>The \<open>Job\<close> model; \<open>ident\<close> is the field \<open>id\<close> (alias \<open>_id\<close>).\<close>

record Job =
  ident :: string
  job_id :: string
  job_type :: JobType
  user_id :: string
  input_files :: "string list"
  parameters :: dict
  priority :: int
  status :: JobStatus
  progress :: int
  result :: "dict option"
  error_message :: "string option"
  created_at :: datetime
  updated_at :: datetime
  completed_at :: "datetime option"

text \<open>\<open>JobCreate\<close> (= \<open>JobBase\<close>); \<open>parameters\<close> is \<open>Optional[dict]\<close> there.\<close>

record JobCreate =
  c_job_type :: JobType
  c_user_id :: string
  c_input_files :: "string list"
  c_parameters :: "dict option"
  c_priority :: int

text \<open>
  \<open>JobUpdate\<close>: every field is optional with default \<open>None\<close>. A field is either never
  assigned (\<open>Unset\<close>) or assigned a value that may itself be \<open>None\<close>.
\<close>

datatype 'a field = Unset | Assigned "'a option"

record JobUpdate =
  u_status :: "JobStatus field"
  u_progress :: "int field"
  u_result :: "dict field"
  u_error_message :: "string field"

definition JobUpdate_empty :: JobUpdate where
  "JobUpdate_empty =
     \<lparr>u_status = Unset, u_progress = Unset, u_result = Unset, u_error_message = Unset\<rparr>"

datatype error =
    ValidationError
  | DuplicateKeyError
  | TypeError
  | OverflowError

section \<open>The Redis client (backend/app/core/redis.py)\<close>

text \<open>
  \<open>RedisClient.redis\<close> is \<open>None\<close> until \<open>connect\<close> has run; afterwards it is a database of
  lists by key. The head of a list is its left end.
\<close>

type_synonym redis_db = "string \<Rightarrow> string list option"
type_synonym RedisClient = "redis_db option"

definition lpush :: "string \<Rightarrow> string \<Rightarrow> RedisClient \<Rightarrow> nat \<times> RedisClient" where
  "lpush key v r =
     (case r of
        None \<Rightarrow> (0, None)
      | Some db \<Rightarrow>
          (let l = v # (case db key of None \<Rightarrow> [] | Some xs \<Rightarrow> xs)
           in (length l, Some (db(key \<mapsto> l)))))"

definition rpop :: "string \<Rightarrow> RedisClient \<Rightarrow> string option \<times> RedisClient" where
  "rpop key r =
     (case r of
        None \<Rightarrow> (None, None)
      | Some db \<Rightarrow>
          (case db key of
             None \<Rightarrow> (None, r)
           | Some xs \<Rightarrow>
               (if xs = [] then (None, r)
                else (Some (last xs),
                      Some (if butlast xs = [] then db(key := None)
                            else db(key \<mapsto> butlast xs))))))"

definition delete :: "string \<Rightarrow> RedisClient \<Rightarrow> nat \<times> RedisClient" where
  "delete key r =
     (case r of
        None \<Rightarrow> (0, None)
      | Some db \<Rightarrow> ((if db key = None then 0 else 1), Some (db(key := None))))"

section \<open>The jobs collection\<close>

text \<open>
  The collection is the list of its documents in insertion order. \<open>find_one\<close> returns the
  first document matching the query, \<open>update_one\<close> changes the first matching document
  and reports as \<open>modified_count\<close> whether the document changed, \<open>insert_one\<close> refuses a
  document whose \<open>_id\<close> or \<open>job_id\<close> (unique index of backend/app/core/database.py) is
  already present. An integer is written as a BSON integer of at most 8 bytes; encoding a
  larger one raises \<open>OverflowError\<close> before anything is sent to the collection.
\<close>

definition fits_int64 :: "int \<Rightarrow> bool" where
  "fits_int64 n = (- (2 ^ 63) \<le> n \<and> n < 2 ^ 63)"

definition find_one :: "(Job \<Rightarrow> bool) \<Rightarrow> Job list \<Rightarrow> Job option" where
  "find_one q ds = find q ds"

fun update_one :: "(Job \<Rightarrow> bool) \<Rightarrow> (Job \<Rightarrow> Job) \<Rightarrow> Job list \<Rightarrow> nat \<times> Job list" where
  "update_one q f [] = (0, [])"
| "update_one q f (d # ds) =
     (if q d then ((if f d = d then 0 else 1), f d # ds)
      else (fst (update_one q f ds), d # snd (update_one q f ds)))"

definition insert_one :: "Job \<Rightarrow> Job list \<Rightarrow> error + Job list" where
  "insert_one d ds =
     (if \<not> fits_int64 (priority d) \<or> \<not> fits_int64 (progress d) then Inl OverflowError
      else if job_id d \<in> set (map job_id ds) \<or> ident d \<in> set (map ident ds)
      then Inl DuplicateKeyError else Inr (ds @ [d]))"

section \<open>Building a Job (backend/app/models/job.py)\<close>

text \<open>
  The field \<open>id\<close> of \<open>Job\<close> has type \<open>PyObjectId\<close>, whose validators are the ones that
  \<open>__get_validators__\<close> yields: \<open>PyObjectId.validate(cls, v)\<close>. The repository is written
  against pydantic 2 (\<open>pydantic_settings\<close>, \<open>field_validator\<close>, \<open>model_dump\<close>, \<open>model_config\<close>),
  which calls such a validator with two arguments, the value and the validation info.
  \<open>validate\<close> takes the value alone, so the call raises \<open>TypeError\<close> before its body (the
  test \<open>ObjectId.is_valid(v)\<close>) is entered, whatever the value.
\<close>

definition PyObjectId_validate :: "string \<Rightarrow> error + string" where
  "PyObjectId_validate v = Inl TypeError"

text \<open>
  \<open>Job(**data)\<close> on a dictionary that has an \<open>_id\<close> (or \<open>id\<close>) entry: the identifier is
  validated first, being the first field of the model. \<open>Job.from_dict\<close> renames \<open>_id\<close> to
  \<open>id\<close> and builds the job the same way; every stored document has an \<open>_id\<close>.
\<close>

definition Job_init :: "Job \<Rightarrow> error + Job" where
  "Job_init data =
     (case PyObjectId_validate (ident data) of
        Inl e \<Rightarrow> Inl e
      | Inr v \<Rightarrow> Inr (data\<lparr>ident := v\<rparr>))"

definition Job_from_dict :: "Job \<Rightarrow> error + Job" where
  "Job_from_dict data = Job_init data"

section \<open>The job service (backend/app/services/job_service.py)\<close>

text \<open>
  The state the service works on: the jobs collection, the Redis client, and the
  background tasks started with \<open>asyncio.create_task\<close> that have not run yet (each is the
  \<open>process\<close> closure of one job id). A call returns its value or the exception it raises
  (\<open>Inl\<close>), together with the state it leaves: a call can raise after it has written.
\<close>

record backend =
  jobs :: "Job list"
  redis :: RedisClient
  tasks :: "string list"

definition get_job :: "string \<Rightarrow> string \<Rightarrow> backend \<Rightarrow> error + Job option" where
  "get_job jid uid s =
     (case find_one (\<lambda>d. job_id d = jid \<and> user_id d = uid) (jobs s) of
        None \<Rightarrow> Inr None
      | Some job_data \<Rightarrow>
          (case Job_from_dict job_data of Inl e \<Rightarrow> Inl e | Inr job \<Rightarrow> Inr (Some job)))"

text \<open>
  \<open>update_data\<close>: the entries of \<open>job_update.dict(exclude_unset=True)\<close> whose value is not
  \<open>None\<close>, then \<open>updated_at\<close>, then \<open>completed_at\<close> when the status entry is "completed".
\<close>

definition entry :: "'a field \<Rightarrow> 'a option" where
  "entry f = (case f of Unset \<Rightarrow> None | Assigned v \<Rightarrow> v)"

record update_data =
  d_status :: "JobStatus option"
  d_progress :: "int option"
  d_result :: "dict option"
  d_error_message :: "string option"
  d_updated_at :: "datetime option"
  d_completed_at :: "datetime option"

definition make_update_data :: "datetime \<Rightarrow> datetime \<Rightarrow> JobUpdate \<Rightarrow> update_data" where
  "make_update_data t_upd t_comp u =
     \<lparr>d_status = entry (u_status u),
      d_progress = entry (u_progress u),
      d_result = entry (u_result u),
      d_error_message = entry (u_error_message u),
      d_updated_at = Some t_upd,
      d_completed_at = (if entry (u_status u) = Some COMPLETED then Some t_comp else None)\<rparr>"

text \<open>Whether the update document can be encoded: its only integer is \<open>progress\<close>.\<close>

definition encodable :: "update_data \<Rightarrow> bool" where
  "encodable ud = (case d_progress ud of None \<Rightarrow> True | Some p \<Rightarrow> fits_int64 p)"

text \<open>The update operator \<open>{"$set": update_data}\<close> on one document.\<close>

definition apply_set :: "update_data \<Rightarrow> Job \<Rightarrow> Job" where
  "apply_set ud j =
     j\<lparr>status := (case d_status ud of None \<Rightarrow> status j | Some v \<Rightarrow> v),
       progress := (case d_progress ud of None \<Rightarrow> progress j | Some v \<Rightarrow> v),
       result := (case d_result ud of None \<Rightarrow> result j | Some v \<Rightarrow> Some v),
       error_message := (case d_error_message ud of None \<Rightarrow> error_message j | Some v \<Rightarrow> Some v),
       updated_at := (case d_updated_at ud of None \<Rightarrow> updated_at j | Some v \<Rightarrow> v),
       completed_at := (case d_completed_at ud of None \<Rightarrow> completed_at j | Some v \<Rightarrow> Some v)\<rparr>"

text \<open>
  \<open>update_job\<close>: the write, then, when a document was modified, the document is read back
  and turned into a \<open>Job\<close>.
\<close>

definition update_job ::
  "datetime \<Rightarrow> datetime \<Rightarrow> string \<Rightarrow> JobUpdate \<Rightarrow> backend \<Rightarrow> (error + Job option) \<times> backend" where
  "update_job t_upd t_comp jid u s =
     (let ud = make_update_data t_upd t_comp u
      in if \<not> encodable ud then (Inl OverflowError, s)
         else
           (let r = update_one (\<lambda>d. job_id d = jid) (apply_set ud) (jobs s);
                s' = s\<lparr>jobs := snd r\<rparr>
            in if fst r \<noteq> 0
               then (case find_one (\<lambda>d. job_id d = jid) (jobs s') of
                       None \<Rightarrow> (Inl TypeError, s')
                     | Some job_data \<Rightarrow>
                         (case Job_from_dict job_data of
                            Inl e \<Rightarrow> (Inl e, s')
                          | Inr job \<Rightarrow> (Inr (Some job), s')))
               else (Inr None, s')))"

definition remove_from_queue :: "string \<Rightarrow> backend \<Rightarrow> backend" where
  "remove_from_queue jid s = s\<lparr>redis := snd (delete (''job:'' @ jid) (redis s))\<rparr>"

text \<open>
  \<open>_simulate_job_processing\<close> only schedules the closure \<open>process\<close>; \<open>process\<close> is the body
  that runs later, after the sleep. An exception it raises ends the background task and
  reaches no caller.
\<close>

definition simulate_job_processing :: "string \<Rightarrow> backend \<Rightarrow> backend" where
  "simulate_job_processing jid s = s\<lparr>tasks := tasks s @ [jid]\<rparr>"

definition process :: "datetime \<Rightarrow> datetime \<Rightarrow> string \<Rightarrow> backend \<Rightarrow> backend" where
  "process t_upd t_comp jid s =
     (case find_one (\<lambda>d. job_id d = jid) (jobs s) of
        None \<Rightarrow> s
      | Some job_data \<Rightarrow>
          snd (update_job t_upd t_comp jid
                 \<lparr>u_status = Assigned (Some COMPLETED),
                  u_progress = Assigned (Some 100),
                  u_result = Assigned (Some [(''message'', ''Job completed successfully'')]),
                  u_error_message = Unset\<rparr> s))"

definition queue_job :: "string \<Rightarrow> backend \<Rightarrow> backend" where
  "queue_job jid s =
     simulate_job_processing jid (s\<lparr>redis := snd (lpush ''job_queue'' jid (redis s))\<rparr>)"

definition cancel_job ::
  "datetime \<Rightarrow> string \<Rightarrow> string \<Rightarrow> backend \<Rightarrow> (error + bool) \<times> backend" where
  "cancel_job now jid uid s =
     (case get_job jid uid s of
        Inl e \<Rightarrow> (Inl e, s)
      | Inr None \<Rightarrow> (Inr False, s)
      | Inr (Some job) \<Rightarrow>
          (if status job \<noteq> PENDING \<and> status job \<noteq> PROCESSING then (Inr False, s)
           else
             (case update_job now now jid
                     (JobUpdate_empty\<lparr>u_status := Assigned (Some CANCELLED)\<rparr>) s of
                (Inl e, s1) \<Rightarrow> (Inl e, s1)
              | (Inr updated, s1) \<Rightarrow>
                  (Inr True, (if status job = PENDING then remove_from_queue jid s1 else s1)))))"

text \<open>
  \<open>create_job\<close>. \<open>oid\<close> and \<open>jid\<close> are the strings of the two \<open>uuid.uuid4()\<close> calls; \<open>oid\<close> is
  the \<open>_id\<close> entry of the dictionary that \<open>Job(**job_dict)\<close> validates, and \<open>parameters\<close> must
  be a dictionary there. The \<open>user_id\<close> argument is not used; the job would keep the
  \<open>user_id\<close> of \<open>job_data\<close>.
\<close>

definition create_job ::
  "string \<Rightarrow> string \<Rightarrow> datetime \<Rightarrow> datetime \<Rightarrow> JobCreate \<Rightarrow> string \<Rightarrow> backend \<Rightarrow>
   (error + Job) \<times> backend" where
  "create_job oid jid t_created t_updated job_data uid s =
     (case PyObjectId_validate oid of
        Inl e \<Rightarrow> (Inl e, s)
      | Inr v \<Rightarrow>
          (case c_parameters job_data of
             None \<Rightarrow> (Inl ValidationError, s)
           | Some ps \<Rightarrow>
               (let job = \<lparr>ident = v, job_id = jid, job_type = c_job_type job_data,
                           user_id = c_user_id job_data, input_files = c_input_files job_data,
                           parameters = ps, priority = c_priority job_data,
                           status = PENDING, progress = 0, result = None, error_message = None,
                           created_at = t_created, updated_at = t_updated, completed_at = None\<rparr>
                in (case insert_one job (jobs s) of
                      Inl e \<Rightarrow> (Inl e, s)
                    | Inr ds \<Rightarrow> (Inr job, queue_job jid (s\<lparr>jobs := ds\<rparr>))))))"

section \<open>The cancel endpoint (backend/app/api/v1/files.py)\<close>



section \<open>The create endpoint and request validation\<close>

text \<open>
  The body of \<open>POST /jobs\<close> is validated against \<open>JobCreate\<close> before the endpoint runs:
  \<open>job_type\<close> must be the value of a \<open>JobType\<close> member, \<open>parameters\<close> defaults to the empty
  dictionary and may be \<open>null\<close>, \<open>priority\<close> defaults to 1 and must be an integer.
  \<open>input_files\<close> is a list of strings by its type.
\<close>

record JobCreate_body =
  b_job_type :: string
  b_user_id :: string
  b_input_files :: "string list"
  b_parameters :: "dict field"
  b_priority :: "int field"

definition validate_JobCreate :: "JobCreate_body \<Rightarrow> error + JobCreate" where
  "validate_JobCreate b =
     (case JobType_of_value (b_job_type b) of
        None \<Rightarrow> Inl ValidationError
      | Some t \<Rightarrow>
          (case b_priority b of
             Assigned None \<Rightarrow> Inl ValidationError
           | Assigned (Some p) \<Rightarrow>
               Inr \<lparr>c_job_type = t, c_user_id = b_user_id b, c_input_files = b_input_files b,
                    c_parameters = (case b_parameters b of Unset \<Rightarrow> Some [] | Assigned v \<Rightarrow> v),
                    c_priority = p\<rparr>
           | Unset \<Rightarrow>
               Inr \<lparr>c_job_type = t, c_user_id = b_user_id b, c_input_files = b_input_files b,
                    c_parameters = (case b_parameters b of Unset \<Rightarrow> Some [] | Assigned v \<Rightarrow> v),
                    c_priority = 1\<rparr>))"

definition create_job_endpoint ::
  "string \<Rightarrow> string \<Rightarrow> datetime \<Rightarrow> datetime \<Rightarrow> JobCreate_body \<Rightarrow> string \<Rightarrow> backend \<Rightarrow>
   (error + Job) \<times> backend" where
  "create_job_endpoint oid jid t_created t_updated body current_user s =
     (case validate_JobCreate body of
        Inl e \<Rightarrow> (Inl e, s)
      | Inr job_data \<Rightarrow> create_job oid jid t_created t_updated job_data current_user s)"

section \<open>The queue as the service and the client use it\<close>

definition queue_contents :: "RedisClient \<Rightarrow> string list" where
  "queue_contents r =
     (case r of None \<Rightarrow> []
      | Some db \<Rightarrow> (case db ''job_queue'' of None \<Rightarrow> [] | Some xs \<Rightarrow> xs))"

text \<open>Pushing ids one after the other, and popping \<open>n\<close> times.\<close>

fun push_all :: "string list \<Rightarrow> RedisClient \<Rightarrow> RedisClient" where
  "push_all [] r = r"
| "push_all (j # js) r = push_all js (snd (lpush ''job_queue'' j r))"

fun pop_n :: "nat \<Rightarrow> RedisClient \<Rightarrow> string option list" where
  "pop_n 0 r = []"
| "pop_n (Suc n) r = fst (rpop ''job_queue'' r) # pop_n n (snd (rpop ''job_queue'' r))"

section \<open>The worker (workers/main.py)\<close>

text \<open>
  \<open>update_job_status\<close> prints; it writes nothing else. Its output is the list of the lines
  it prints: the status line, then the result line of a completed job with a non-empty
  result, or the error line of a failed job with a non-empty message.
\<close>

datatype out_line =
    Status_line string string int
  | Completed_line string dict
  | Failed_line string string

definition update_job_status ::
  "string \<Rightarrow> string \<Rightarrow> int \<Rightarrow> dict option \<Rightarrow> string option \<Rightarrow> out_line list" where
  "update_job_status jid st prog res err =
     Status_line jid st prog #
       (case (if st = ''completed'' then res else None) of
          Some (x # xs) \<Rightarrow> [Completed_line jid (x # xs)]
        | _ \<Rightarrow>
          (case (if st = ''failed'' then err else None) of
             Some (c # cs) \<Rightarrow> [Failed_line jid (c # cs)]
           | _ \<Rightarrow> []))"

text \<open>
  A catalog operation returns its result dictionary or raises; \<open>Inl m\<close> is an exception
  \<open>e\<close> with \<open>str(e) = m\<close>. The operations of \<open>PDFService\<close> work on files and are taken as
  they are given; \<open>OCRService.process_ocr\<close> likewise.
\<close>

type_synonym outcome = "string + dict"

record PDFService =
  merge_pdfs :: "string list \<Rightarrow> dict \<Rightarrow> outcome"
  split_pdf :: "string \<Rightarrow> dict \<Rightarrow> outcome"
  compress_pdf :: "string \<Rightarrow> dict \<Rightarrow> outcome"
  extract_pages :: "string \<Rightarrow> dict \<Rightarrow> outcome"
  remove_pages :: "string \<Rightarrow> dict \<Rightarrow> outcome"
  rotate_pages :: "string \<Rightarrow> dict \<Rightarrow> outcome"
  add_watermark :: "string \<Rightarrow> dict \<Rightarrow> outcome"
  protect_pdf :: "string \<Rightarrow> dict \<Rightarrow> outcome"
  remove_protection :: "string \<Rightarrow> dict \<Rightarrow> outcome"

text \<open>\<open>op(input_files[0], parameters)\<close>: indexing an empty list raises \<open>IndexError\<close>.\<close>

definition on_first :: "(string \<Rightarrow> dict \<Rightarrow> outcome) \<Rightarrow> string list \<Rightarrow> dict \<Rightarrow> outcome" where
  "on_first f in_files ps =
     (case in_files of [] \<Rightarrow> Inl ''list index out of range'' | x # xs \<Rightarrow> f x ps)"

text \<open>The chain of comparisons on \<open>task_type\<close> in \<open>process_pdf_task\<close>.\<close>

definition pdf_operation :: "PDFService \<Rightarrow> string \<Rightarrow> string list \<Rightarrow> dict \<Rightarrow> outcome" where
  "pdf_operation svc task_type in_files ps =
     (if task_type = ''merge_pdf'' then merge_pdfs svc in_files ps
      else if task_type = ''split_pdf'' then on_first (split_pdf svc) in_files ps
      else if task_type = ''compress_pdf'' then on_first (compress_pdf svc) in_files ps
      else if task_type = ''extract_pages'' then on_first (extract_pages svc) in_files ps
      else if task_type = ''remove_pages'' then on_first (remove_pages svc) in_files ps
      else if task_type = ''rotate_pages'' then on_first (rotate_pages svc) in_files ps
      else if task_type = ''add_watermark'' then on_first (add_watermark svc) in_files ps
      else if task_type = ''protect_pdf'' then on_first (protect_pdf svc) in_files ps
      else if task_type = ''remove_protection'' then on_first (remove_protection svc) in_files ps
      else Inl (''Unknown task type: '' @ task_type))"

text \<open>
  A task returns what it returns or re-raises, together with the lines it printed.
\<close>

definition process_pdf_task ::
  "PDFService \<Rightarrow> string \<Rightarrow> string list \<Rightarrow> dict \<Rightarrow> string \<Rightarrow> outcome \<times> out_line list" where
  "process_pdf_task svc task_type in_files ps jid =
     (let out = update_job_status jid ''processing'' 0 None None
      in (case pdf_operation svc task_type in_files ps of
            Inr res \<Rightarrow> (Inr res, out @ update_job_status jid ''completed'' 100 (Some res) None)
          | Inl e \<Rightarrow> (Inl e, out @ update_job_status jid ''failed'' 0 None (Some e))))"

definition ocr_task ::
  "(string option \<Rightarrow> dict \<Rightarrow> outcome) \<Rightarrow> string option \<Rightarrow> dict \<Rightarrow> string \<Rightarrow>
   outcome \<times> out_line list" where
  "ocr_task process_ocr input_file ps jid =
     (let out = update_job_status jid ''processing'' 0 None None
      in (case process_ocr input_file ps of
            Inr res \<Rightarrow> (Inr res, out @ update_job_status jid ''completed'' 100 (Some res) None)
          | Inl e \<Rightarrow> (Inl e, out @ update_job_status jid ''failed'' 0 None (Some e))))"

text \<open>
  Dispatch attempts: each is one call of \<open>process_pdf_task\<close>, as \<open>POST /process\<close> submits
  it; the calls run one after the other and their output accumulates.
\<close>

record attempt =
  a_task_type :: string
  a_input_files :: "string list"
  a_parameters :: dict
  a_job_id :: string

fun run_attempts :: "PDFService \<Rightarrow> attempt list \<Rightarrow> out_line list" where
  "run_attempts svc [] = []"
| "run_attempts svc (a # as) =
     snd (process_pdf_task svc (a_task_type a) (a_input_files a) (a_parameters a) (a_job_id a))
       @ run_attempts svc as"

text \<open>How many times the output reports job \<open>jid\<close> as taken into processing.\<close>

definition processing_reports :: "string \<Rightarrow> out_line list \<Rightarrow> nat" where
  "processing_reports jid out = length (filter (\<lambda>l. l = Status_line jid ''processing'' 0) out)"

section \<open>What the worker reports about a job\<close>

text \<open>The status and progress of each status line printed for job \<open>jid\<close>, in order.\<close>

fun status_reports :: "string \<Rightarrow> out_line list \<Rightarrow> (string \<times> int) list" where
  "status_reports jid [] = []"
| "status_reports jid (Status_line j st p # ls) =
     (if j = jid then (st, p) # status_reports jid ls else status_reports jid ls)"
| "status_reports jid (Completed_line j r # ls) = status_reports jid ls"
| "status_reports jid (Failed_line j m # ls) = status_reports jid ls"

section \<open>The order the queue is specified to have\<close>

text \<open>
  Stated from the claim, to be compared with \<open>lpush\<close> and \<open>rpop\<close>: job ids submitted with
  their priorities are yielded by priority, highest first, and in submission order within
  one priority.
\<close>

definition priority_order :: "(string \<times> int) list \<Rightarrow> string list" where
  "priority_order submitted = map fst (sort_key (\<lambda>x. - snd x) submitted)"

section \<open>Concrete requests and states\<close>

definition start :: backend where
  "start = \<lparr>jobs = [], redis = Some (\<lambda>k. None), tasks = []\<rparr>"

definition body_a :: JobCreate_body where
  "body_a = \<lparr>b_job_type = ''compress_pdf'', b_user_id = ''u1'', b_input_files = [''a.pdf''],
              b_parameters = Unset, b_priority = Assigned (Some 1)\<rparr>"

text \<open>A stored document, and a collection that holds one document.\<close>

definition job_a :: Job where
  "job_a = \<lparr>ident = ''65f0c0ffee0123456789abcd'', job_id = ''j1'', job_type = COMPRESS_PDF,
             user_id = ''u1'', input_files = [''a.pdf''], parameters = [], priority = 1,
             status = PENDING, progress = 0, result = None, error_message = None,
             created_at = 10, updated_at = 10, completed_at = None\<rparr>"

definition holding :: "Job \<Rightarrow> backend" where
  "holding j = \<lparr>jobs = [j], redis = Some (\<lambda>k. None), tasks = []\<rparr>"

text \<open>A PDF service whose operations all succeed, and OCR operations that raise.\<close>

definition pdf_ok :: PDFService where
  "pdf_ok =
     \<lparr>merge_pdfs = (\<lambda>fs ps. Inr [(''filename'', ''merged.pdf'')]),
      split_pdf = (\<lambda>f ps. Inr [(''filename'', ''split.pdf'')]),
      compress_pdf = (\<lambda>f ps. Inr [(''filename'', ''compressed.pdf'')]),
      extract_pages = (\<lambda>f ps. Inr [(''filename'', ''extracted.pdf'')]),
      remove_pages = (\<lambda>f ps. Inr [(''filename'', ''removed.pdf'')]),
      rotate_pages = (\<lambda>f ps. Inr [(''filename'', ''rotated.pdf'')]),
      add_watermark = (\<lambda>f ps. Inr [(''filename'', ''watermarked.pdf'')]),
      protect_pdf = (\<lambda>f ps. Inr [(''filename'', ''protected.pdf'')]),
      remove_protection = (\<lambda>f ps. Inr [(''filename'', ''unprotected.pdf'')])\<rparr>"

definition attempt_a :: attempt where
  "attempt_a = \<lparr>a_task_type = ''compress_pdf'', a_input_files = [''a.pdf''],
                 a_parameters = [], a_job_id = ''j1''\<rparr>"

definition ocr_raises :: "string \<Rightarrow> string option \<Rightarrow> dict \<Rightarrow> outcome" where
  "ocr_raises m input_file ps = Inl m"

section \<open>The effect of a patch, as the frame property states it\<close>


section \<open>Facts about the collection and the update\<close>





lemma get_job_found:
  assumes "find_one (\<lambda>d. job_id d = jid \<and> user_id d = uid) (jobs s) = Some d"
  shows "get_job jid uid s = Inl TypeError"
  using assms by (simp add: get_job_def Job_from_dict_def Job_init_def PyObjectId_validate_def)

lemma cancel_job_found:
  assumes "find_one (\<lambda>d. job_id d = jid \<and> user_id d = uid) (jobs s) = Some d"
  shows "cancel_job now jid uid s = (Inl TypeError, s)"
  using get_job_found [OF assms] by (simp add: cancel_job_def)

lemma create_job_raises: "create_job oid jid t_c t_u jd uid s = (Inl TypeError, s)"
  by (simp add: create_job_def PyObjectId_validate_def)

lemmas service_defs =
  create_job_def insert_one_def queue_job_def simulate_job_processing_def lpush_def
  cancel_job_def get_job_def find_one_def update_job_def Job_from_dict_def Job_init_def
  PyObjectId_validate_def make_update_data_def apply_set_def entry_def encodable_def
  fits_int64_def JobUpdate_empty_def remove_from_queue_def delete_def process_def rpop_def
  queue_contents_def Let_def

lemmas example_defs = start_def body_a_def job_a_def holding_def

section \<open>The frame of an update\<close>




section \<open>Cancelling\<close>

text \<open>
  Claim C8, on the code. The collection holds a cancelled job of the caller; cancelling it
  again raises \<open>TypeError\<close> where \<open>get_job\<close> builds the job from the document, before the
  status is looked at, and does not return \<open>False\<close>. The state is left unchanged.
\<close>
theorem cancel_cancelled_job_raises:
  "cancel_job 11 ''j1'' ''u1'' (holding (job_a\<lparr>status := CANCELLED\<rparr>))
     = (Inl TypeError, holding (job_a\<lparr>status := CANCELLED\<rparr>))"
  by (simp add: service_defs example_defs)


section \<open>Submitting a job\<close>

text \<open>
  Claim C3, on the code. A request with a job type of the catalog, a list of input files
  and a priority passes validation, and \<open>create_job\<close> then raises \<open>TypeError\<close> while it
  builds the \<open>Job\<close>, before \<open>insert_one\<close> and before \<open>_queue_job\<close>: no job is stored, nothing is
  pushed to the queue, no background task is scheduled and no job is returned.
\<close>
theorem create_job_endpoint_raises:
  "validate_JobCreate body_a
     = Inr \<lparr>c_job_type = COMPRESS_PDF, c_user_id = ''u1'', c_input_files = [''a.pdf''],
            c_parameters = Some [], c_priority = 1\<rparr> \<and>
   create_job_endpoint ''3f2b8c1e-5d4a-4e6f-9a7b-0c1d2e3f4a5b''
     ''9b1deb4d-3b7d-4bad-9bdd-2b0d7b3dcb6d'' 10 10 body_a ''u1'' start
     = (Inl TypeError, start) \<and>
   jobs start = [] \<and> queue_contents (redis start) = [] \<and> tasks start = []"
  by (simp add: create_job_endpoint_def validate_JobCreate_def JobType_of_value_def
        JobType_members_def service_defs example_defs)

section \<open>The order of the queue\<close>

lemma lpush_connected:
  "lpush ''job_queue'' j (Some db) =
     (Suc (length (queue_contents (Some db))),
      Some (db(''job_queue'' \<mapsto> j # queue_contents (Some db))))"
  by (simp add: lpush_def queue_contents_def Let_def split: option.splits)

lemma push_all_connected:
  "\<exists>db'. push_all ids (Some db) = Some db' \<and>
         queue_contents (Some db') = rev ids @ queue_contents (Some db)"
proof (induction ids arbitrary: db)
  case Nil
  then show ?case by simp
next
  case (Cons j js)
  let ?db1 = "db(''job_queue'' \<mapsto> j # queue_contents (Some db))"
  have q1: "queue_contents (Some ?db1) = j # queue_contents (Some db)"
    by (simp add: queue_contents_def)
  from Cons.IH [of ?db1] obtain db' where
    "push_all js (Some ?db1) = Some db'"
    "queue_contents (Some db') = rev js @ queue_contents (Some ?db1)"
    by blast
  then show ?case
    by (simp add: lpush_connected q1)
qed

lemma rpop_connected:
  assumes "queue_contents (Some db) = xs @ [x]"
  shows "\<exists>db'. rpop ''job_queue'' (Some db) = (Some x, Some db') \<and>
               queue_contents (Some db') = xs"
  using assms
  by (auto simp: rpop_def queue_contents_def butlast_append split: option.splits)

lemma pop_n_connected:
  "queue_contents (Some db) = xs \<Longrightarrow> pop_n (length xs) (Some db) = map Some (rev xs)"
proof (induction xs arbitrary: db rule: rev_induct)
  case Nil
  then show ?case by simp
next
  case (snoc x xs)
  from rpop_connected [OF snoc.prems] obtain db' where
    r: "rpop ''job_queue'' (Some db) = (Some x, Some db')" and q: "queue_contents (Some db') = xs"
    by blast
  from snoc.IH [OF q] r show ?case by simp
qed

text \<open>
  Claim C7, as amended. With Redis connected, the ids pushed to \<open>job_queue\<close> are popped in
  the order in which they were pushed, after the ids that were already queued (\<open>lpush\<close> adds
  at the head, \<open>rpop\<close> takes from the tail); the priority of a job plays no part.
\<close>
theorem queue_is_fifo:
  assumes "r = Some db"
  shows "pop_n (length (queue_contents r) + length ids) (push_all ids r)
           = map Some (rev (queue_contents r) @ ids)"
proof -
  from push_all_connected [of ids db] obtain db' where
    p: "push_all ids (Some db) = Some db'"
    and q: "queue_contents (Some db') = rev ids @ queue_contents (Some db)"
    by blast
  have "pop_n (length (rev ids @ queue_contents (Some db))) (Some db')
          = map Some (rev (rev ids @ queue_contents (Some db)))"
    using pop_n_connected [OF q] .
  with p assms show ?thesis by (simp add: add.commute)
qed

theorem queue_is_fifo_witness:
  "redis start = Some (\<lambda>k. None) \<and>
   pop_n (length (queue_contents (redis start)) + length [''j1'', ''j2'', ''j3''])
     (push_all [''j1'', ''j2'', ''j3''] (redis start))
     = [Some ''j1'', Some ''j2'', Some ''j3'']"
  using queue_is_fifo [of "redis start" "\<lambda>k. None" "[''j1'', ''j2'', ''j3'']"]
  by (simp add: start_def queue_contents_def)

text \<open>
  The claim as stated fails: \<open>_queue_job\<close> is given the job id alone. The id of a job of
  priority 1 queued before the id of a job of priority 5 is popped first, where the order by
  priority yields it second.
\<close>
theorem queue_ignores_priority:
  "queue_contents (redis (queue_job ''j2'' (queue_job ''j1'' start))) = [''j2'', ''j1''] \<and>
   pop_n 2 (redis (queue_job ''j2'' (queue_job ''j1'' start))) = [Some ''j1'', Some ''j2''] \<and>
   map Some (priority_order [(''j1'', 1), (''j2'', 5)]) = [Some ''j2'', Some ''j1'']"
  by (simp add: numeral_2_eq_2 priority_order_def service_defs example_defs)

section \<open>The worker\<close>

lemma processing_reports_append:
  "processing_reports jid (xs @ ys) = processing_reports jid xs + processing_reports jid ys"
  by (simp add: processing_reports_def)

lemma processing_reports_update_job_status:
  "processing_reports jid (update_job_status j st p res err) =
     (if j = jid \<and> st = ''processing'' \<and> p = 0 then 1 else 0)"
  by (auto simp: processing_reports_def update_job_status_def split: option.splits list.splits)

lemma processing_reports_task:
  "processing_reports jid (snd (process_pdf_task svc tt fs ps j)) = (if j = jid then 1 else 0)"
  by (simp add: process_pdf_task_def Let_def processing_reports_append
        processing_reports_update_job_status split: sum.splits)

text \<open>
  Claim C1, as amended. Every dispatch attempt on a job id is carried out: each call of
  \<open>process_pdf_task\<close> reports the job as taken into processing exactly once, whatever the
  stored status of the job and whatever earlier attempts did, so the number of such reports
  for a job id equals the number of attempts on it.
\<close>
theorem every_attempt_is_dispatched:
  "processing_reports jid (run_attempts svc as) = length (filter (\<lambda>a. a_job_id a = jid) as)"
  by (induction as) (simp_all add: processing_reports_append processing_reports_task,
      simp add: processing_reports_def)

text \<open>
  The claim as stated fails: two attempts on the same job id are both dispatched.
\<close>
theorem two_attempts_both_dispatched:
  "\<not> processing_reports ''j1'' (run_attempts pdf_ok [attempt_a, attempt_a]) \<le> 1"
  by (simp add: processing_reports_def process_pdf_task_def update_job_status_def
        pdf_operation_def on_first_def pdf_ok_def attempt_a_def)

text \<open>
  Claim C6, as amended. When the catalog operation of \<open>ocr_task\<close> or of \<open>process_pdf_task\<close>
  raises, the task raises the same error, and the worker prints the status "failed" with
  progress 0, the value of the only earlier report, followed by the message of the operation,
  verbatim, when that message is not empty. It prints nothing else and writes no job.
\<close>
theorem failed_operation_report:
  "(process_ocr input_file ps = Inl m \<longrightarrow>
      ocr_task process_ocr input_file ps jid =
        (Inl m, [Status_line jid ''processing'' 0, Status_line jid ''failed'' 0] @
                (if m = [] then [] else [Failed_line jid m]))) \<and>
   (pdf_operation svc task_type in_files ps = Inl m \<longrightarrow>
      process_pdf_task svc task_type in_files ps jid =
        (Inl m, [Status_line jid ''processing'' 0, Status_line jid ''failed'' 0] @
                (if m = [] then [] else [Failed_line jid m])))"
  by (auto simp: ocr_task_def process_pdf_task_def update_job_status_def split: list.splits)

theorem failed_operation_report_witness:
  "ocr_raises ''no text found'' (Some ''scan.png'') [] = Inl ''no text found'' \<and>
   ocr_task (ocr_raises ''no text found'') (Some ''scan.png'') [] ''j1'' =
     (Inl ''no text found'',
      [Status_line ''j1'' ''processing'' 0, Status_line ''j1'' ''failed'' 0,
       Failed_line ''j1'' ''no text found'']) \<and>
   pdf_operation pdf_ok ''shred_pdf'' [''a.pdf''] [] = Inl ''Unknown task type: shred_pdf'' \<and>
   process_pdf_task pdf_ok ''shred_pdf'' [''a.pdf''] [] ''j1'' =
     (Inl ''Unknown task type: shred_pdf'',
      [Status_line ''j1'' ''processing'' 0, Status_line ''j1'' ''failed'' 0,
       Failed_line ''j1'' ''Unknown task type: shred_pdf''])"
  using failed_operation_report [of "ocr_raises ''no text found''" "Some ''scan.png''" "[]"
      "''no text found''" "''j1''" pdf_ok "''shred_pdf''" "[''a.pdf'']"]
    failed_operation_report [of "ocr_raises ''no text found''" "Some ''scan.png''" "[]"
      "''Unknown task type: shred_pdf''" "''j1''" pdf_ok "''shred_pdf''" "[''a.pdf'']"]
  by (simp add: ocr_raises_def pdf_operation_def)

text \<open>
  The claim as stated fails: an operation that raises with an empty message leaves no
  error behind.
\<close>
theorem empty_message_is_not_reported:
  "ocr_task (ocr_raises []) (Some ''scan.png'') [] ''j1'' =
     (Inl [], [Status_line ''j1'' ''processing'' 0, Status_line ''j1'' ''failed'' 0]) \<and>
   Failed_line ''j1'' [] \<notin> set (snd (ocr_task (ocr_raises []) (Some ''scan.png'') [] ''j1''))"
  by (simp add: ocr_task_def ocr_raises_def update_job_status_def)

lemma status_reports_append:
  "status_reports jid (xs @ ys) = status_reports jid xs @ status_reports jid ys"
  by (induction jid xs rule: status_reports.induct) simp_all

lemma status_reports_update_job_status:
  "status_reports jid (update_job_status jid st p res err) = [(st, p)]"
  by (simp add: update_job_status_def split: option.splits list.splits)

text \<open>
  Claim C5, as amended. Within one task of the worker, the states reported for the job are
  "processing" with progress 0 and then either "completed" with progress 100 or "failed"
  with progress 0: the reported progress never decreases, and a reported state has progress
  100 exactly when its status is "completed". A later dispatch of the same job id reports
  progress 0 again.
\<close>
theorem task_progress_reports:
  "status_reports jid (snd (process_pdf_task svc task_type in_files ps jid))
     = (case pdf_operation svc task_type in_files ps of
          Inr res \<Rightarrow> [(''processing'', 0), (''completed'', 100)]
        | Inl e \<Rightarrow> [(''processing'', 0), (''failed'', 0)]) \<and>
   status_reports jid (snd (ocr_task process_ocr input_file ps jid))
     = (case process_ocr input_file ps of
          Inr res \<Rightarrow> [(''processing'', 0), (''completed'', 100)]
        | Inl e \<Rightarrow> [(''processing'', 0), (''failed'', 0)]) \<and>
   sorted (map snd (status_reports jid (snd (process_pdf_task svc task_type in_files ps jid)))) \<and>
   sorted (map snd (status_reports jid (snd (ocr_task process_ocr input_file ps jid)))) \<and>
   list_all (\<lambda>r. snd r = 100 \<longleftrightarrow> fst r = ''completed'')
     (status_reports jid (snd (process_pdf_task svc task_type in_files ps jid))) \<and>
   list_all (\<lambda>r. snd r = 100 \<longleftrightarrow> fst r = ''completed'')
     (status_reports jid (snd (ocr_task process_ocr input_file ps jid)))"
  by (simp add: process_pdf_task_def ocr_task_def status_reports_append
        status_reports_update_job_status split: sum.splits)

theorem task_progress_reports_witness:
  "status_reports ''j1'' (snd (process_pdf_task pdf_ok ''compress_pdf'' [''a.pdf''] [] ''j1''))
     = [(''processing'', 0), (''completed'', 100)] \<and>
   status_reports ''j1'' (snd (ocr_task (ocr_raises ''no text found'') (Some ''scan.png'') [] ''j1''))
     = [(''processing'', 0), (''failed'', 0)]"
  using task_progress_reports [of "''j1''" pdf_ok "''compress_pdf''" "[''a.pdf'']" "[]"
      "ocr_raises ''no text found''" "Some ''scan.png''"]
  by (simp add: pdf_operation_def on_first_def pdf_ok_def ocr_raises_def)

text \<open>
  The claim as stated fails: when the same job id is dispatched twice, the progress reported
  for the job falls from 100 back to 0.
\<close>
theorem redispatch_lowers_reported_progress:
  "status_reports ''j1'' (run_attempts pdf_ok [attempt_a, attempt_a])
     = [(''processing'', 0), (''completed'', 100), (''processing'', 0), (''completed'', 100)] \<and>
   \<not> sorted (map snd (status_reports ''j1'' (run_attempts pdf_ok [attempt_a, attempt_a])))"
  by (simp add: process_pdf_task_def update_job_status_def pdf_operation_def on_first_def
        pdf_ok_def attempt_a_def)

end
